theory Spec2Isabelle
  imports Complex_Main "HOL-Library.Sublist"
begin

section \<open>Values exchanged with the routers\<close>

text \<open>
  The four routers (schemes, jobs, training, marketplace) are Express handlers over
  Mongoose models, with Joi schemas in front of every write. The handlers are embedded as
  functions from the store and the request to a response (and the new store). The
  libraries are outside the repository; what the handlers rely on is written out here:
  Joi's \<^verbatim>\<open>validate\<close> with its default options (it stops at the first violation and
  rejects unknown keys), Mongoose's \<^verbatim>\<open>find\<close>/\<^verbatim>\<open>skip\<close>/\<^verbatim>\<open>limit\<close>/\<^verbatim>\<open>countDocuments\<close>,
  \<^verbatim>\<open>findById\<close> (which casts the id), \<^verbatim>\<open>findByIdAndUpdate\<close>, \<^verbatim>\<open>findByIdAndDelete\<close>
  and \<^verbatim>\<open>save\<close> (which runs the model's validators). Strings are lists of 8-bit
  characters, numbers are naturals or integers (JavaScript numbers are exact on them
  below \<open>2^53\<close>).
\<close>

datatype jvalue =
    JNull
  | JBool bool
  | JNum int
  | JStr string
  | JArr "jvalue list"
  | JObj "(string \<times> jvalue) list"

type_synonym jobject = "(string \<times> jvalue) list"

text \<open>Property access \<^verbatim>\<open>obj[key]\<close>: \<open>None\<close> is \<^verbatim>\<open>undefined\<close>.\<close>

definition get_prop :: "jobject \<Rightarrow> string \<Rightarrow> jvalue option" where
  "get_prop obj k = map_of obj k"

text \<open>Reading a string-valued field of a stored document.\<close>

definition str_prop :: "jobject \<Rightarrow> string \<Rightarrow> string option" where
  "str_prop obj k = (case get_prop obj k of Some (JStr s) \<Rightarrow> Some s | _ \<Rightarrow> None)"

subsection \<open>Characters\<close>

definition is_upper :: "char \<Rightarrow> bool" where
  "is_upper c = (65 \<le> (of_char c :: nat) \<and> (of_char c :: nat) \<le> 90)"

definition is_lower :: "char \<Rightarrow> bool" where
  "is_lower c = (97 \<le> (of_char c :: nat) \<and> (of_char c :: nat) \<le> 122)"

definition is_digit :: "char \<Rightarrow> bool" where
  "is_digit c = (48 \<le> (of_char c :: nat) \<and> (of_char c :: nat) \<le> 57)"

definition lower_char :: "char \<Rightarrow> char" where
  "lower_char c = (if is_upper c then char_of ((of_char c :: nat) + 32) else c)"

definition lower_str :: "string \<Rightarrow> string" where
  "lower_str s = map lower_char s"

text \<open>\<^verbatim>\<open>\w\<close> and \<^verbatim>\<open>.\<close> of a JavaScript regular expression.\<close>

definition word_char :: "char \<Rightarrow> bool" where
  "word_char c = (is_upper c \<or> is_lower c \<or> is_digit c \<or> c = CHR ''_'')"

definition line_terminator :: "char \<Rightarrow> bool" where
  "line_terminator c = ((of_char c :: nat) = 10 \<or> (of_char c :: nat) = 13)"

subsection \<open>Regular expressions written in the source\<close>

text \<open>
  The regular-expression literals of the validators and models, matched by derivatives.
  \<open>rmatch\<close> is a match of the whole string, as between \<^verbatim>\<open>^\<close> and \<^verbatim>\<open>$\<close>.
\<close>

datatype rexp =
    Zero
  | One
  | Sym "char \<Rightarrow> bool"
  | Alt rexp rexp
  | Seq rexp rexp
  | Star rexp

fun nullable :: "rexp \<Rightarrow> bool" where
  "nullable Zero = False"
| "nullable One = True"
| "nullable (Sym p) = False"
| "nullable (Alt r s) = (nullable r \<or> nullable s)"
| "nullable (Seq r s) = (nullable r \<and> nullable s)"
| "nullable (Star r) = True"

fun deriv :: "char \<Rightarrow> rexp \<Rightarrow> rexp" where
  "deriv c Zero = Zero"
| "deriv c One = Zero"
| "deriv c (Sym p) = (if p c then One else Zero)"
| "deriv c (Alt r s) = Alt (deriv c r) (deriv c s)"
| "deriv c (Seq r s) =
     (if nullable r then Alt (Seq (deriv c r) s) (deriv c s) else Seq (deriv c r) s)"
| "deriv c (Star r) = Seq (deriv c r) (Star r)"

fun rmatch :: "rexp \<Rightarrow> string \<Rightarrow> bool" where
  "rmatch r [] = nullable r"
| "rmatch r (c # cs) = rmatch (deriv c r) cs"

definition chr :: "char \<Rightarrow> rexp" where
  "chr c = Sym (\<lambda>x. x = c)"

fun lit :: "string \<Rightarrow> rexp" where
  "lit [] = One"
| "lit (c # cs) = Seq (chr c) (lit cs)"

definition opt :: "rexp \<Rightarrow> rexp" where
  "opt r = Alt One r"

definition plus :: "rexp \<Rightarrow> rexp" where
  "plus r = Seq r (Star r)"

fun upto :: "nat \<Rightarrow> rexp \<Rightarrow> rexp" where
  "upto 0 r = One"
| "upto (Suc n) r = Alt One (Seq r (upto n r))"

text \<open>\<^verbatim>\<open>/^[\+]?[1-9][\d]{0,15}$/\<close> (marketplace phone, in the Joi schema and in the model).\<close>

definition phone_re :: rexp where
  "phone_re =
     Seq (opt (chr (CHR ''+'')))
       (Seq (Sym (\<lambda>c. is_digit c \<and> c \<noteq> CHR ''0'')) (upto 15 (Sym is_digit)))"

text \<open>\<^verbatim>\<open>/^https?:\/\/.+/\<close> (link and url of the models); not anchored at the end.\<close>

definition url_re :: rexp where
  "url_re =
     Seq (lit ''http'') (Seq (opt (chr (CHR ''s''))) (Seq (lit ''://'')
       (Seq (plus (Sym (\<lambda>c. \<not> line_terminator c))) (Star (Sym (\<lambda>c. True))))))"

text \<open>\<^verbatim>\<open>/^\w+([.-]?\w+)*@\w+([.-]?\w+)*(\.\w{2,3})+$/\<close> (marketplace model, contact.email).\<close>

definition email_re :: rexp where
  "email_re =
     (let w = Sym word_char;
          sep = Sym (\<lambda>c. c = CHR ''.'' \<or> c = CHR ''-'');
          words = Seq (plus w) (Star (Seq (opt sep) (plus w)))
      in Seq words (Seq (chr (CHR ''@'')) (Seq words
           (plus (Seq (chr (CHR ''.'')) (Seq w (Seq w (opt w))))))))"

subsection \<open>Collaborators outside the repository\<close>

text \<open>
  Three decisions are taken by library code that the handlers call with user input and
  that is not written out here: Joi's \<^verbatim>\<open>uri()\<close> and \<^verbatim>\<open>email()\<close> format checks, and
  the storage engine's regular-expression matcher on patterns that use metacharacters
  other than \<^verbatim>\<open>.\<close> (\<open>None\<close>: the engine rejects the pattern and the query fails).
  They are parameters of the model.
\<close>

record externals =
  joi_uri :: "string \<Rightarrow> bool"
  joi_email :: "string \<Rightarrow> bool"
  mongo_regex :: "string \<Rightarrow> (string \<Rightarrow> bool) option"

section \<open>Joi schemas\<close>

datatype vkind =
    Required
  | NotString
  | Empty
  | TooShort nat
  | TooLong nat
  | NotUri
  | NotEmail
  | PatternMismatch
  | NotOneOf "string list"
  | NotObject
  | NotAllowed

text \<open>One entry of \<^verbatim>\<open>error.details\<close>: the path of the key and what is wrong with it.\<close>

datatype violation = Violation (vpath: string) (vkind: vkind)

datatype srule = Min nat | Max nat | Uri | Email | Pattern rexp

fun check_rule :: "externals \<Rightarrow> srule \<Rightarrow> string \<Rightarrow> vkind option" where
  "check_rule X (Min n) s = (if length s < n then Some (TooShort n) else None)"
| "check_rule X (Max n) s = (if n < length s then Some (TooLong n) else None)"
| "check_rule X Uri s = (if joi_uri X s then None else Some NotUri)"
| "check_rule X Email s = (if joi_email X s then None else Some NotEmail)"
| "check_rule X (Pattern r) s = (if rmatch r s then None else Some PatternMismatch)"

fun check_rules :: "externals \<Rightarrow> srule list \<Rightarrow> string \<Rightarrow> vkind option" where
  "check_rules X [] s = None"
| "check_rules X (r # rs) s =
     (case check_rule X r s of Some v \<Rightarrow> Some v | None \<Rightarrow> check_rules X rs s)"

text \<open>
  \<^verbatim>\<open>Joi.string()...required()\<close> or \<^verbatim>\<open>...optional()\<close> on the value of a key
  (\<open>None\<close>: the key is absent). The empty string is refused by \<^verbatim>\<open>Joi.string()\<close>.
\<close>

definition joi_string :: "externals \<Rightarrow> srule list \<Rightarrow> bool \<Rightarrow> jvalue option \<Rightarrow> vkind option" where
  "joi_string X rules required v =
     (case v of
        None \<Rightarrow> (if required then Some Required else None)
      | Some (JStr s) \<Rightarrow> (if s = [] then Some Empty else check_rules X rules s)
      | Some _ \<Rightarrow> Some NotString)"

text \<open>\<^verbatim>\<open>Joi.string().valid(...).required()\<close>: only the listed values pass.\<close>

definition joi_valid :: "string list \<Rightarrow> jvalue option \<Rightarrow> vkind option" where
  "joi_valid allowed v =
     (case v of
        None \<Rightarrow> Some Required
      | Some (JStr s) \<Rightarrow> (if s \<in> set allowed then None else Some (NotOneOf allowed))
      | Some _ \<Rightarrow> Some (NotOneOf allowed))"

type_synonym keyschema = "string \<times> (jvalue option \<Rightarrow> vkind option)"

text \<open>
  \<^verbatim>\<open>Joi.object({...}).validate(obj)\<close> with the default \<^verbatim>\<open>abortEarly: true\<close>: the keys
  of the schema are checked in the order of their declaration and the first violation
  is the only one reported; when all pass, the first key of the object that the schema
  does not declare is reported as not allowed.
\<close>

fun check_keys :: "string \<Rightarrow> keyschema list \<Rightarrow> jobject \<Rightarrow> violation option" where
  "check_keys pre [] obj = None"
| "check_keys pre ((k, chk) # ks) obj =
     (case chk (get_prop obj k) of
        Some v \<Rightarrow> Some (Violation (pre @ k) v)
      | None \<Rightarrow> check_keys pre ks obj)"

definition check_unknown :: "string \<Rightarrow> string list \<Rightarrow> jobject \<Rightarrow> violation option" where
  "check_unknown pre known obj =
     (case filter (\<lambda>k. k \<notin> set known) (map fst obj) of
        [] \<Rightarrow> None
      | k # _ \<Rightarrow> Some (Violation (pre @ k) NotAllowed))"

definition joi_object :: "string \<Rightarrow> keyschema list \<Rightarrow> jobject \<Rightarrow> violation option" where
  "joi_object pre ks obj =
     (case check_keys pre ks obj of
        Some v \<Rightarrow> Some v
      | None \<Rightarrow> check_unknown pre (map fst ks) obj)"

definition schemeSchema :: "externals \<Rightarrow> jobject \<Rightarrow> violation option" where
  "schemeSchema X =
     joi_object []
       [(''title'', joi_string X [Min 3, Max 255] True),
        (''description'', joi_string X [Min 10] True),
        (''eligibility'', joi_string X [Min 5] True),
        (''link'', joi_string X [Uri] True),
        (''language'', joi_string X [Min 2, Max 50] True),
        (''category'', joi_string X [Max 100] True)]"

definition jobSchema :: "externals \<Rightarrow> jobject \<Rightarrow> violation option" where
  "jobSchema X =
     joi_object []
       [(''title'', joi_string X [Min 3, Max 255] True),
        (''description'', joi_string X [Min 10] True),
        (''category'', joi_string X [Min 2, Max 100] True),
        (''location'', joi_string X [Min 2, Max 255] True),
        (''language'', joi_string X [Min 2, Max 50] True)]"

definition trainingSchema :: "externals \<Rightarrow> jobject \<Rightarrow> violation option" where
  "trainingSchema X =
     joi_object []
       [(''title'', joi_string X [Min 3, Max 255] True),
        (''type'', joi_valid [''video'', ''pdf'', ''text'', ''infographic'']),
        (''url'', joi_string X [Uri] True),
        (''language'', joi_string X [Min 2, Max 50] True),
        (''description'', joi_string X [Max 1000] False)]"

text \<open>The nested \<^verbatim>\<open>contact\<close> object of the marketplace schema, itself required.\<close>

definition contactSchema :: "externals \<Rightarrow> jvalue option \<Rightarrow> violation option" where
  "contactSchema X v =
     (case v of
        None \<Rightarrow> Some (Violation ''contact'' Required)
      | Some (JObj c) \<Rightarrow>
          joi_object ''contact.''
            [(''phone'', joi_string X [Pattern phone_re] True),
             (''email'', joi_string X [Email] True),
             (''address'', joi_string X [Min 10] True)] c
      | Some _ \<Rightarrow> Some (Violation ''contact'' NotObject))"

definition marketplaceSchema :: "externals \<Rightarrow> jobject \<Rightarrow> violation option" where
  "marketplaceSchema X obj =
     (case check_keys []
             [(''businessName'', joi_string X [Min 2, Max 255] True),
              (''ownerName'', joi_string X [Min 2, Max 255] True),
              (''productService'', joi_string X [Min 5] True)] obj of
        Some v \<Rightarrow> Some v
      | None \<Rightarrow>
          (case contactSchema X (get_prop obj ''contact'') of
             Some v \<Rightarrow> Some v
           | None \<Rightarrow>
               (case check_keys []
                       [(''language'', joi_string X [Min 2, Max 50] True),
                        (''location'', joi_string X [Max 255] True)] obj of
                  Some v \<Rightarrow> Some v
                | None \<Rightarrow>
                    check_unknown []
                      [''businessName'', ''ownerName'', ''productService'', ''contact'',
                       ''language'', ''location''] obj)))"

section \<open>Stored documents and the Mongoose operations\<close>

record user =
  user_id :: string
  user_name :: string
  role :: string

text \<open>
  A stored document: \<^verbatim>\<open>_id\<close>, \<^verbatim>\<open>createdBy\<close> (the id of a user), the two timestamps
  and the fields of the resource's schema.
\<close>

record doc =
  doc_id :: string
  createdBy :: string
  createdAt :: nat
  updatedAt :: nat
  docfields :: jobject

record dbstate =
  users :: "user list"
  schemes :: "doc list"
  jobs :: "doc list"
  trainingcontents :: "doc list"
  marketplaces :: "doc list"

datatype js_error =
    ReferenceError string
  | TypeError string
  | CastError string
  | ValidationError
  | MongoServerError

subsection \<open>Filters\<close>

text \<open>
  A filter object is a conjunction of clauses: \<^verbatim>\<open>{key: value}\<close>,
  \<^verbatim>\<open>{key: {$regex: pattern, $options: 'i'}}\<close> and \<^verbatim>\<open>{$or: [...]}\<close> over such conditions.
\<close>

datatype pred = Equals string | RegexI string

datatype clause = Cond string pred | Or "(string \<times> pred) list"

text \<open>
  The pattern of a \<^verbatim>\<open>$regex\<close> comes from the request. Patterns made of ordinary
  characters and \<^verbatim>\<open>.\<close> are interpreted here: an ordinary character matches itself in
  either case (ASCII letters), \<^verbatim>\<open>.\<close> matches any character but a newline, and the
  pattern may match anywhere in the subject. Any other pattern is left to
  \<open>mongo_regex\<close>.
\<close>

definition regex_meta :: "char list" where
  "regex_meta =
     [CHR 0x5C, CHR ''^'', CHR ''$'', CHR ''.'', CHR ''|'', CHR ''?'', CHR ''*'', CHR ''+'',
      CHR ''('', CHR '')'', CHR ''['', CHR '']'', CHR ''{'', CHR ''}'']"

datatype atom = Lit char | AnyChar

fun parse_atoms :: "string \<Rightarrow> atom list option" where
  "parse_atoms [] = Some []"
| "parse_atoms (c # cs) =
     (if c = CHR ''.'' then map_option (Cons AnyChar) (parse_atoms cs)
      else if c \<in> set regex_meta then None
      else map_option (Cons (Lit c)) (parse_atoms cs))"

fun atom_ok :: "atom \<Rightarrow> char \<Rightarrow> bool" where
  "atom_ok (Lit x) c = (lower_char x = lower_char c)"
| "atom_ok AnyChar c = ((of_char c :: nat) \<noteq> 10)"

fun match_here :: "atom list \<Rightarrow> string \<Rightarrow> bool" where
  "match_here [] s = True"
| "match_here (a # as) [] = False"
| "match_here (a # as) (c # cs) = (atom_ok a c \<and> match_here as cs)"

fun search :: "atom list \<Rightarrow> string \<Rightarrow> bool" where
  "search as [] = match_here as []"
| "search as (c # cs) = (match_here as (c # cs) \<or> search as cs)"

definition compile_regex :: "externals \<Rightarrow> string \<Rightarrow> (string \<Rightarrow> bool) option" where
  "compile_regex X pat =
     (case parse_atoms pat of Some as \<Rightarrow> Some (search as) | None \<Rightarrow> mongo_regex X pat)"

fun compile_pred :: "externals \<Rightarrow> pred \<Rightarrow> (string option \<Rightarrow> bool) option" where
  "compile_pred X (Equals v) = Some (\<lambda>f. f = Some v)"
| "compile_pred X (RegexI p) =
     map_option (\<lambda>m f. case f of None \<Rightarrow> False | Some s \<Rightarrow> m s) (compile_regex X p)"

fun compile_or :: "externals \<Rightarrow> (string \<times> pred) list \<Rightarrow> (doc \<Rightarrow> bool) option" where
  "compile_or X [] = Some (\<lambda>d. False)"
| "compile_or X ((k, p) # alts) =
     (case compile_pred X p of
        None \<Rightarrow> None
      | Some m \<Rightarrow>
          (case compile_or X alts of
             None \<Rightarrow> None
           | Some rest \<Rightarrow> Some (\<lambda>d. m (str_prop (docfields d) k) \<or> rest d)))"

fun compile_clause :: "externals \<Rightarrow> clause \<Rightarrow> (doc \<Rightarrow> bool) option" where
  "compile_clause X (Cond k p) =
     map_option (\<lambda>m d. m (str_prop (docfields d) k)) (compile_pred X p)"
| "compile_clause X (Or alts) = compile_or X alts"

fun compile_filter :: "externals \<Rightarrow> clause list \<Rightarrow> (doc \<Rightarrow> bool) option" where
  "compile_filter X [] = Some (\<lambda>d. True)"
| "compile_filter X (c # cs) =
     (case compile_clause X c of
        None \<Rightarrow> None
      | Some m \<Rightarrow>
          (case compile_filter X cs of
             None \<Rightarrow> None
           | Some rest \<Rightarrow> Some (\<lambda>d. m d \<and> rest d)))"

subsection \<open>Queries\<close>

text \<open>\<^verbatim>\<open>.sort({ createdAt: -1 })\<close>: newest first.\<close>

definition sort_desc :: "doc list \<Rightarrow> doc list" where
  "sort_desc ds = sort_key (\<lambda>d. - int (createdAt d)) ds"

text \<open>\<^verbatim>\<open>.limit(n)\<close>: a limit of 0 is no limit.\<close>

definition apply_limit :: "nat \<Rightarrow> 'a list \<Rightarrow> 'a list" where
  "apply_limit n xs = (if n = 0 then xs else take n xs)"

text \<open>
  \<^verbatim>\<open>Model.find(filter).sort({createdAt: -1}).skip(skip).limit(limit)\<close>. The query is
  rejected when a pattern is rejected or the skip is negative.
\<close>

definition find_page :: "externals \<Rightarrow> clause list \<Rightarrow> int \<Rightarrow> nat \<Rightarrow> doc list \<Rightarrow> js_error + doc list" where
  "find_page X flt skip lmt ds =
     (case compile_filter X flt of
        None \<Rightarrow> Inl MongoServerError
      | Some P \<Rightarrow>
          (if skip < 0 then Inl MongoServerError
           else Inr (apply_limit lmt (drop (nat skip) (sort_desc (filter P ds))))))"

definition countDocuments :: "externals \<Rightarrow> clause list \<Rightarrow> doc list \<Rightarrow> js_error + nat" where
  "countDocuments X flt ds =
     (case compile_filter X flt of
        None \<Rightarrow> Inl MongoServerError
      | Some P \<Rightarrow> Inr (length (filter P ds)))"

text \<open>
  An id of the URL is cast to an ObjectId before the lookup: 24 hexadecimal digits, in
  either case. Any other string makes \<^verbatim>\<open>findById\<close> throw.
\<close>

definition is_hex :: "char \<Rightarrow> bool" where
  "is_hex c = (is_digit c \<or> lower_char c \<in> set ''abcdef'')"

definition isObjectId :: "string \<Rightarrow> bool" where
  "isObjectId s = (length s = 24 \<and> list_all is_hex s)"

definition findById :: "doc list \<Rightarrow> string \<Rightarrow> js_error + doc option" where
  "findById ds i =
     (if isObjectId i then Inr (find (\<lambda>d. doc_id d = lower_str i) ds)
      else Inl (CastError i))"

text \<open>\<^verbatim>\<open>.populate('createdBy', 'name')\<close> followed by \<^verbatim>\<open>createdBy?.name\<close>.\<close>

definition created_by_name :: "dbstate \<Rightarrow> doc \<Rightarrow> string option" where
  "created_by_name db d =
     map_option user_name (find (\<lambda>u. user_id u = createdBy d) (users db))"

text \<open>
  \<^verbatim>\<open>findByIdAndUpdate(id, value, { new: true })\<close> sets the keys of \<open>value\<close> and the
  update time on the document with that id; the model's validators do not run.
\<close>

definition set_fields :: "jobject \<Rightarrow> jobject \<Rightarrow> jobject" where
  "set_fields val old = val @ filter (\<lambda>(k, v). k \<notin> set (map fst val)) old"

definition findByIdAndUpdate :: "doc list \<Rightarrow> string \<Rightarrow> jobject \<Rightarrow> nat \<Rightarrow> doc list" where
  "findByIdAndUpdate ds i val now =
     map (\<lambda>d. if doc_id d = lower_str i
              then d\<lparr>docfields := set_fields val (docfields d), updatedAt := now\<rparr> else d) ds"

definition findByIdAndDelete :: "doc list \<Rightarrow> string \<Rightarrow> doc list" where
  "findByIdAndDelete ds i = filter (\<lambda>d. doc_id d \<noteq> lower_str i) ds"

subsection \<open>Validators of the models, run by \<^verbatim>\<open>save\<close>\<close>

datatype mrule = MinLen nat | MaxLen nat | Match rexp | Enum "string list"

fun mrule_ok :: "mrule \<Rightarrow> string \<Rightarrow> bool" where
  "mrule_ok (MinLen n) s = (n \<le> length s)"
| "mrule_ok (MaxLen n) s = (length s \<le> n)"
| "mrule_ok (Match r) s = (s = [] \<or> rmatch r s)"
| "mrule_ok (Enum vs) s = (s \<in> set vs)"

text \<open>
  A path of type String. Only strings and absent keys reach the models, since the Joi
  schema has accepted the payload before.
\<close>

definition mfield_ok :: "bool \<Rightarrow> mrule list \<Rightarrow> jvalue option \<Rightarrow> bool" where
  "mfield_ok required rules v =
     (case v of
        None \<Rightarrow> \<not> required
      | Some (JStr s) \<Rightarrow> (required \<longrightarrow> s \<noteq> []) \<and> list_all (\<lambda>r. mrule_ok r s) rules
      | Some _ \<Rightarrow> False)"

definition get_path :: "jobject \<Rightarrow> string \<Rightarrow> string \<Rightarrow> jvalue option" where
  "get_path obj k1 k2 = (case get_prop obj k1 of Some (JObj c) \<Rightarrow> get_prop c k2 | _ \<Rightarrow> None)"

definition Scheme_valid :: "jobject \<Rightarrow> bool" where
  "Scheme_valid obj =
     (mfield_ok True [MinLen 3, MaxLen 255] (get_prop obj ''title'') \<and>
      mfield_ok True [MinLen 10] (get_prop obj ''description'') \<and>
      mfield_ok True [MinLen 10] (get_prop obj ''eligibility'') \<and>
      mfield_ok True [Match url_re] (get_prop obj ''link'') \<and>
      mfield_ok True [MinLen 2, MaxLen 100] (get_prop obj ''category'') \<and>
      mfield_ok True [MinLen 2, MaxLen 50] (get_prop obj ''language''))"

definition Job_valid :: "jobject \<Rightarrow> bool" where
  "Job_valid obj =
     (mfield_ok True [MinLen 3, MaxLen 255] (get_prop obj ''title'') \<and>
      mfield_ok True [MinLen 10] (get_prop obj ''description'') \<and>
      mfield_ok True [MinLen 2, MaxLen 100] (get_prop obj ''category'') \<and>
      mfield_ok True [MinLen 2, MaxLen 255] (get_prop obj ''location'') \<and>
      mfield_ok True [MinLen 2, MaxLen 50] (get_prop obj ''language''))"

definition TrainingContent_valid :: "jobject \<Rightarrow> bool" where
  "TrainingContent_valid obj =
     (mfield_ok True [MinLen 3, MaxLen 255] (get_prop obj ''title'') \<and>
      mfield_ok True [MinLen 10] (get_prop obj ''description'') \<and>
      mfield_ok True [Enum [''video'', ''pdf'', ''text'', ''infographic'']] (get_prop obj ''type'') \<and>
      mfield_ok True [Match url_re] (get_prop obj ''url'') \<and>
      mfield_ok True [MinLen 2, MaxLen 50] (get_prop obj ''language''))"

definition Marketplace_valid :: "jobject \<Rightarrow> bool" where
  "Marketplace_valid obj =
     (mfield_ok True [MinLen 2, MaxLen 255] (get_prop obj ''businessName'') \<and>
      mfield_ok True [MinLen 2, MaxLen 255] (get_prop obj ''ownerName'') \<and>
      mfield_ok True [MinLen 10] (get_prop obj ''productService'') \<and>
      mfield_ok True [Match phone_re] (get_path obj ''contact'' ''phone'') \<and>
      mfield_ok True [Match email_re] (get_path obj ''contact'' ''email'') \<and>
      mfield_ok True [MinLen 10] (get_path obj ''contact'' ''address'') \<and>
      mfield_ok True [MinLen 2, MaxLen 255] (get_prop obj ''location'') \<and>
      mfield_ok True [MinLen 2, MaxLen 50] (get_prop obj ''language''))"

text \<open>The \<^verbatim>\<open>lowercase: true\<close> setter of \<^verbatim>\<open>contact.email\<close>, applied by \<^verbatim>\<open>new Marketplace\<close>.\<close>

definition lowercase_email :: "jobject \<Rightarrow> jobject" where
  "lowercase_email obj =
     map (\<lambda>(k, v).
       (case v of
          JObj c \<Rightarrow>
            if k = ''contact''
            then (k, JObj (map (\<lambda>(k2, v2).
                    (case v2 of
                       JStr s \<Rightarrow> if k2 = ''email'' then (k2, JStr (lower_str s)) else (k2, v2)
                     | _ \<Rightarrow> (k2, v2))) c))
            else (k, v)
        | _ \<Rightarrow> (k, v))) obj"

text \<open>
  \<^verbatim>\<open>new Model({...value, createdBy: req.user._id})\<close> and \<^verbatim>\<open>save()\<close>: \<open>oid\<close> is the
  ObjectId that the new document receives and \<open>now\<close> the time of the write.
\<close>

definition new_doc :: "jobject \<Rightarrow> user \<Rightarrow> string \<Rightarrow> nat \<Rightarrow> doc" where
  "new_doc val u oid now =
     \<lparr>doc_id = oid, createdBy = user_id u, createdAt = now, updatedAt = now, docfields = val\<rparr>"

definition save :: "(jobject \<Rightarrow> bool) \<Rightarrow> doc \<Rightarrow> doc list \<Rightarrow> js_error + doc list" where
  "save valid d ds =
     (if \<not> valid (docfields d) then Inl ValidationError
      else if doc_id d \<in> set (map doc_id ds) then Inl MongoServerError
      else Inr (ds @ [d]))"

section \<open>Requests and responses\<close>

text \<open>
  \<^verbatim>\<open>req.query\<close>: the parameters some handler reads, and the others. \<open>q_page\<close> and
  \<open>q_limit\<close> are the numbers written in the URL.
\<close>

record query =
  q_language :: "string option"
  q_category :: "string option"
  q_location :: "string option"
  q_type :: "string option"
  q_page :: "nat option"
  q_limit :: "nat option"
  q_other :: "(string \<times> string) list"

text \<open>\<^verbatim>\<open>if (language)\<close>: an absent parameter and the empty string are both falsy.\<close>

definition given :: "string option \<Rightarrow> string option" where
  "given v = (case v of None \<Rightarrow> None | Some s \<Rightarrow> if s = [] then None else Some s)"

record pagination =
  currentPage :: nat
  totalPages :: "nat option"
  totalItems :: nat
  itemsPerPage :: nat

datatype rdata =
    NoData
  | Single doc "string option"
  | Many "(doc \<times> string option) list" "pagination option"

record response =
  status :: nat
  success :: bool
  message :: "string option"
  errors :: "violation list option"
  rdata :: rdata

definition internal_error :: response where
  "internal_error =
     \<lparr>status = 500, success = False, message = Some ''Internal server error'',
      errors = None, rdata = NoData\<rparr>"

definition validation_error :: "violation \<Rightarrow> response" where
  "validation_error v =
     \<lparr>status = 400, success = False, message = Some ''Validation error'',
      errors = Some [v], rdata = NoData\<rparr>"

definition not_found :: "string \<Rightarrow> response" where
  "not_found msg =
     \<lparr>status = 404, success = False, message = Some msg, errors = None, rdata = NoData\<rparr>"

definition forbidden :: "string \<Rightarrow> response" where
  "forbidden msg =
     \<lparr>status = 403, success = False, message = Some msg, errors = None, rdata = NoData\<rparr>"

definition ok_many :: "(doc \<times> string option) list \<Rightarrow> pagination option \<Rightarrow> response" where
  "ok_many items pg =
     \<lparr>status = 200, success = True, message = None, errors = None, rdata = Many items pg\<rparr>"

definition ok_single :: "doc \<Rightarrow> string option \<Rightarrow> response" where
  "ok_single d n =
     \<lparr>status = 200, success = True, message = None, errors = None, rdata = Single d n\<rparr>"

definition ok_changed :: "string \<Rightarrow> doc \<Rightarrow> string option \<Rightarrow> response" where
  "ok_changed msg d n =
     \<lparr>status = 200, success = True, message = Some msg, errors = None, rdata = Single d n\<rparr>"

definition ok_deleted :: "string \<Rightarrow> response" where
  "ok_deleted msg =
     \<lparr>status = 200, success = True, message = Some msg, errors = None, rdata = NoData\<rparr>"

definition created :: "string \<Rightarrow> doc \<Rightarrow> string option \<Rightarrow> response" where
  "created msg d n =
     \<lparr>status = 201, success = True, message = Some msg, errors = None, rdata = Single d n\<rparr>"

text \<open>\<^verbatim>\<open>docs.map(d => ({...d.toObject(), created_by_name: d.createdBy?.name}))\<close>\<close>

definition enrich :: "dbstate \<Rightarrow> doc list \<Rightarrow> (doc \<times> string option) list" where
  "enrich db ds = map (\<lambda>d. (d, created_by_name db d)) ds"

text \<open>
  \<^verbatim>\<open>Math.ceil(totalCount / limit)\<close>; with a limit of 0 the quotient is not a finite
  number and the JSON response carries \<^verbatim>\<open>null\<close>.
\<close>

definition Math_ceil_div :: "nat \<Rightarrow> nat \<Rightarrow> nat option" where
  "Math_ceil_div totalCount lmt =
     (if lmt = 0 then None else Some (nat \<lceil>real totalCount / real lmt\<rceil>))"

definition page_of :: "query \<Rightarrow> nat" where
  "page_of q = (case q_page q of None \<Rightarrow> 1 | Some p \<Rightarrow> p)"

definition limit_of :: "query \<Rightarrow> nat" where
  "limit_of q = (case q_limit q of None \<Rightarrow> 10 | Some l \<Rightarrow> l)"

text \<open>\<^verbatim>\<open>(page - 1) * limit\<close>\<close>

definition skip_of :: "query \<Rightarrow> int" where
  "skip_of q = (int (page_of q) - 1) * int (limit_of q)"

text \<open>
  The body shared by the three list handlers over Mongoose models: the page of the
  matching documents, their count, and the \<^verbatim>\<open>pagination\<close> object.
\<close>

definition list_with_pagination :: "externals \<Rightarrow> dbstate \<Rightarrow> clause list \<Rightarrow> query \<Rightarrow> doc list \<Rightarrow> response" where
  "list_with_pagination X db flt q ds =
     (case find_page X flt (skip_of q) (limit_of q) ds of
        Inl e \<Rightarrow> internal_error
      | Inr found \<Rightarrow>
          (case countDocuments X flt ds of
             Inl e \<Rightarrow> internal_error
           | Inr totalCount \<Rightarrow>
               ok_many (enrich db found)
                 (Some \<lparr>currentPage = page_of q,
                        totalPages = Math_ceil_div totalCount (limit_of q),
                        totalItems = totalCount,
                        itemsPerPage = limit_of q\<rparr>)))"

text \<open>
  The body shared by the category, type and search handlers: the page of the matching
  documents, and nothing else in \<^verbatim>\<open>data\<close>.
\<close>

definition list_without_pagination :: "externals \<Rightarrow> dbstate \<Rightarrow> clause list \<Rightarrow> query \<Rightarrow> doc list \<Rightarrow> response" where
  "list_without_pagination X db flt q ds =
     (case find_page X flt (skip_of q) (limit_of q) ds of
        Inl e \<Rightarrow> internal_error
      | Inr found \<Rightarrow> ok_many (enrich db found) None)"

definition language_clause :: "query \<Rightarrow> clause list" where
  "language_clause q =
     (case given (q_language q) of None \<Rightarrow> [] | Some l \<Rightarrow> [Cond ''language'' (Equals l)])"

definition category_clause :: "query \<Rightarrow> clause list" where
  "category_clause q =
     (case given (q_category q) of None \<Rightarrow> [] | Some c \<Rightarrow> [Cond ''category'' (RegexI c)])"


definition type_clause :: "query \<Rightarrow> clause list" where
  "type_clause q =
     (case given (q_type q) of None \<Rightarrow> [] | Some t \<Rightarrow> [Cond ''type'' (Equals t)])"

section \<open>routes/schemes.js\<close>

definition schemes_get_all :: "externals \<Rightarrow> dbstate \<Rightarrow> query \<Rightarrow> response" where
  "schemes_get_all X db q =
     list_with_pagination X db (language_clause q @ category_clause q) q (schemes db)"

definition schemes_get_id :: "dbstate \<Rightarrow> string \<Rightarrow> response" where
  "schemes_get_id db i =
     (case findById (schemes db) i of
        Inl e \<Rightarrow> internal_error
      | Inr None \<Rightarrow> not_found ''Scheme not found''
      | Inr (Some scheme) \<Rightarrow> ok_single scheme (created_by_name db scheme))"

definition schemes_post :: "externals \<Rightarrow> dbstate \<Rightarrow> user \<Rightarrow> jobject \<Rightarrow> string \<Rightarrow> nat \<Rightarrow> response \<times> dbstate" where
  "schemes_post X db u body oid now =
     (case schemeSchema X body of
        Some v \<Rightarrow> (validation_error v, db)
      | None \<Rightarrow>
          (case save Scheme_valid (new_doc body u oid now) (schemes db) of
             Inl e \<Rightarrow> (internal_error, db)
           | Inr ds \<Rightarrow>
               (let db' = db\<lparr>schemes := ds\<rparr> in
                case findById ds oid of
                  Inr (Some newScheme) \<Rightarrow>
                    (created ''Scheme created successfully'' newScheme
                       (created_by_name db' newScheme), db')
                | _ \<Rightarrow> (internal_error, db'))))"

definition schemes_put :: "externals \<Rightarrow> dbstate \<Rightarrow> user \<Rightarrow> string \<Rightarrow> jobject \<Rightarrow> nat \<Rightarrow> response \<times> dbstate" where
  "schemes_put X db u i body now =
     (case schemeSchema X body of
        Some v \<Rightarrow> (validation_error v, db)
      | None \<Rightarrow>
          (case findById (schemes db) i of
             Inl e \<Rightarrow> (internal_error, db)
           | Inr None \<Rightarrow> (not_found ''Scheme not found'', db)
           | Inr (Some existingScheme) \<Rightarrow>
               (let db' = db\<lparr>schemes := findByIdAndUpdate (schemes db) i body now\<rparr> in
                case findById (schemes db') i of
                  Inr (Some updatedScheme) \<Rightarrow>
                    (ok_changed ''Scheme updated successfully'' updatedScheme
                       (created_by_name db' updatedScheme), db')
                | _ \<Rightarrow> (internal_error, db'))))"

definition schemes_delete :: "dbstate \<Rightarrow> user \<Rightarrow> string \<Rightarrow> response \<times> dbstate" where
  "schemes_delete db u i =
     (case findById (schemes db) i of
        Inl e \<Rightarrow> (internal_error, db)
      | Inr None \<Rightarrow> (not_found ''Scheme not found'', db)
      | Inr (Some existingScheme) \<Rightarrow>
          (ok_deleted ''Scheme deleted successfully'',
           db\<lparr>schemes := findByIdAndDelete (schemes db) i\<rparr>))"

definition schemes_get_category :: "externals \<Rightarrow> dbstate \<Rightarrow> string \<Rightarrow> query \<Rightarrow> response" where
  "schemes_get_category X db category q =
     list_without_pagination X db
       (Cond ''category'' (RegexI category) # language_clause q) q (schemes db)"


section \<open>routes/jobs.js\<close>


definition jobs_get_id :: "dbstate \<Rightarrow> string \<Rightarrow> response" where
  "jobs_get_id db i =
     (case findById (jobs db) i of
        Inl e \<Rightarrow> internal_error
      | Inr None \<Rightarrow> not_found ''Job not found''
      | Inr (Some job) \<Rightarrow> ok_single job (created_by_name db job))"

definition jobs_post :: "externals \<Rightarrow> dbstate \<Rightarrow> user \<Rightarrow> jobject \<Rightarrow> string \<Rightarrow> nat \<Rightarrow> response \<times> dbstate" where
  "jobs_post X db u body oid now =
     (case jobSchema X body of
        Some v \<Rightarrow> (validation_error v, db)
      | None \<Rightarrow>
          (case save Job_valid (new_doc body u oid now) (jobs db) of
             Inl e \<Rightarrow> (internal_error, db)
           | Inr ds \<Rightarrow>
               (let db' = db\<lparr>jobs := ds\<rparr> in
                case findById ds oid of
                  Inr (Some newJob) \<Rightarrow>
                    (created ''Job created successfully'' newJob (created_by_name db' newJob), db')
                | _ \<Rightarrow> (internal_error, db'))))"

definition jobs_put :: "externals \<Rightarrow> dbstate \<Rightarrow> user \<Rightarrow> string \<Rightarrow> jobject \<Rightarrow> nat \<Rightarrow> response \<times> dbstate" where
  "jobs_put X db u i body now =
     (case jobSchema X body of
        Some v \<Rightarrow> (validation_error v, db)
      | None \<Rightarrow>
          (case findById (jobs db) i of
             Inl e \<Rightarrow> (internal_error, db)
           | Inr None \<Rightarrow> (not_found ''Job not found'', db)
           | Inr (Some existingJob) \<Rightarrow>
               (if createdBy existingJob \<noteq> user_id u \<and> role u \<noteq> ''admin''
                then (forbidden ''You can only update your own jobs'', db)
                else
                  (let db' = db\<lparr>jobs := findByIdAndUpdate (jobs db) i body now\<rparr> in
                   case findById (jobs db') i of
                     Inr (Some updatedJob) \<Rightarrow>
                       (ok_changed ''Job updated successfully'' updatedJob
                          (created_by_name db' updatedJob), db')
                   | _ \<Rightarrow> (internal_error, db')))))"

definition jobs_delete :: "dbstate \<Rightarrow> user \<Rightarrow> string \<Rightarrow> response \<times> dbstate" where
  "jobs_delete db u i =
     (case findById (jobs db) i of
        Inl e \<Rightarrow> (internal_error, db)
      | Inr None \<Rightarrow> (not_found ''Job not found'', db)
      | Inr (Some existingJob) \<Rightarrow>
          (if createdBy existingJob \<noteq> user_id u \<and> role u \<noteq> ''admin''
           then (forbidden ''You can only delete your own jobs'', db)
           else (ok_deleted ''Job deleted successfully'',
                 db\<lparr>jobs := findByIdAndDelete (jobs db) i\<rparr>)))"

section \<open>routes/training.js\<close>

text \<open>
  The module binds these names at its top level (lines 1 to 15) and no others. It
  requires \<^verbatim>\<open>../config/database\<close> as \<open>db\<close> and does not require the
  \<^verbatim>\<open>TrainingContent\<close> model, which five of its handlers name. Reading a name that
  is not bound throws a \<^verbatim>\<open>ReferenceError\<close>.
\<close>

definition training_scope :: "string list" where
  "training_scope =
     [''express'', ''Joi'', ''db'', ''authenticateToken'', ''requireRole'', ''router'',
      ''trainingSchema'']"

definition lookup_ident :: "string list \<Rightarrow> string \<Rightarrow> js_error + unit" where
  "lookup_ident scope x = (if x \<in> set scope then Inr () else Inl (ReferenceError x))"

text \<open>
  \<^verbatim>\<open>config/database.js\<close> exports \<^verbatim>\<open>connectDB\<close>, an \<^verbatim>\<open>async\<close> function: a call
  returns a promise, whatever the arguments. Calling a method that an object does not
  have throws a \<^verbatim>\<open>TypeError\<close>.
\<close>

datatype js_object = PromiseObj

definition connectDB :: "string \<Rightarrow> js_object" where
  "connectDB arg = PromiseObj"

fun methods_of :: "js_object \<Rightarrow> string list" where
  "methods_of PromiseObj = [''then'', ''catch'', ''finally'']"

definition call_method :: "js_object \<Rightarrow> string \<Rightarrow> js_error + unit" where
  "call_method obj m = (if m \<in> set (methods_of obj) then Inr () else Inl (TypeError m))"

text \<open>
  \<^verbatim>\<open>GET /\<close>: the handler starts with \<^verbatim>\<open>db('training_content').select(...)\<close>. What
  follows is written for a query builder (filters on type and language, limit, offset
  and a count); it is embedded as the same operations on the collection.
\<close>

definition training_get_all :: "externals \<Rightarrow> dbstate \<Rightarrow> query \<Rightarrow> response" where
  "training_get_all X db q =
     (case call_method (connectDB ''training_content'') ''select'' of
        Inl e \<Rightarrow> internal_error
      | Inr _ \<Rightarrow>
          list_with_pagination X db (type_clause q @ language_clause q) q (trainingcontents db))"

definition training_get_id :: "dbstate \<Rightarrow> string \<Rightarrow> response" where
  "training_get_id db i =
     (case lookup_ident training_scope ''TrainingContent'' of
        Inl e \<Rightarrow> internal_error
      | Inr _ \<Rightarrow>
          (case findById (trainingcontents db) i of
             Inl e \<Rightarrow> internal_error
           | Inr None \<Rightarrow> not_found ''Training content not found''
           | Inr (Some content) \<Rightarrow> ok_single content (created_by_name db content)))"

definition training_post :: "externals \<Rightarrow> dbstate \<Rightarrow> user \<Rightarrow> jobject \<Rightarrow> string \<Rightarrow> nat \<Rightarrow> response \<times> dbstate" where
  "training_post X db u body oid now =
     (case trainingSchema X body of
        Some v \<Rightarrow> (validation_error v, db)
      | None \<Rightarrow>
          (case lookup_ident training_scope ''TrainingContent'' of
             Inl e \<Rightarrow> (internal_error, db)
           | Inr _ \<Rightarrow>
               (case save TrainingContent_valid (new_doc body u oid now) (trainingcontents db) of
                  Inl e \<Rightarrow> (internal_error, db)
                | Inr ds \<Rightarrow>
                    (let db' = db\<lparr>trainingcontents := ds\<rparr> in
                     case findById ds oid of
                       Inr (Some newContent) \<Rightarrow>
                         (created ''Training content created successfully'' newContent
                            (created_by_name db' newContent), db')
                     | _ \<Rightarrow> (internal_error, db')))))"

definition training_put :: "externals \<Rightarrow> dbstate \<Rightarrow> user \<Rightarrow> string \<Rightarrow> jobject \<Rightarrow> nat \<Rightarrow> response \<times> dbstate" where
  "training_put X db u i body now =
     (case trainingSchema X body of
        Some v \<Rightarrow> (validation_error v, db)
      | None \<Rightarrow>
          (case lookup_ident training_scope ''TrainingContent'' of
             Inl e \<Rightarrow> (internal_error, db)
           | Inr _ \<Rightarrow>
               (case findById (trainingcontents db) i of
                  Inl e \<Rightarrow> (internal_error, db)
                | Inr None \<Rightarrow> (not_found ''Training content not found'', db)
                | Inr (Some existingContent) \<Rightarrow>
                    (if createdBy existingContent \<noteq> user_id u \<and> role u \<noteq> ''admin''
                     then (forbidden ''You can only update your own training content'', db)
                     else
                       (let db' = db\<lparr>trainingcontents :=
                                        findByIdAndUpdate (trainingcontents db) i body now\<rparr> in
                        case findById (trainingcontents db') i of
                          Inr (Some updatedContent) \<Rightarrow>
                            (ok_changed ''Training content updated successfully'' updatedContent
                               (created_by_name db' updatedContent), db')
                        | _ \<Rightarrow> (internal_error, db'))))))"

definition training_delete :: "dbstate \<Rightarrow> user \<Rightarrow> string \<Rightarrow> response \<times> dbstate" where
  "training_delete db u i =
     (case lookup_ident training_scope ''TrainingContent'' of
        Inl e \<Rightarrow> (internal_error, db)
      | Inr _ \<Rightarrow>
          (case findById (trainingcontents db) i of
             Inl e \<Rightarrow> (internal_error, db)
           | Inr None \<Rightarrow> (not_found ''Training content not found'', db)
           | Inr (Some existingContent) \<Rightarrow>
               (if createdBy existingContent \<noteq> user_id u \<and> role u \<noteq> ''admin''
                then (forbidden ''You can only delete your own training content'', db)
                else (ok_deleted ''Training content deleted successfully'',
                      db\<lparr>trainingcontents := findByIdAndDelete (trainingcontents db) i\<rparr>))))"

definition training_get_type :: "externals \<Rightarrow> dbstate \<Rightarrow> string \<Rightarrow> query \<Rightarrow> response" where
  "training_get_type X db ty q =
     (case lookup_ident training_scope ''TrainingContent'' of
        Inl e \<Rightarrow> internal_error
      | Inr _ \<Rightarrow>
          list_without_pagination X db (Cond ''type'' (Equals ty) # language_clause q) q
            (trainingcontents db))"

section \<open>routes/marketplace.js\<close>


definition marketplace_get_id :: "dbstate \<Rightarrow> string \<Rightarrow> response" where
  "marketplace_get_id db i =
     (case findById (marketplaces db) i of
        Inl e \<Rightarrow> internal_error
      | Inr None \<Rightarrow> not_found ''Marketplace entry not found''
      | Inr (Some entry) \<Rightarrow> ok_single entry (created_by_name db entry))"

definition marketplace_post :: "externals \<Rightarrow> dbstate \<Rightarrow> user \<Rightarrow> jobject \<Rightarrow> string \<Rightarrow> nat \<Rightarrow> response \<times> dbstate" where
  "marketplace_post X db u body oid now =
     (case marketplaceSchema X body of
        Some v \<Rightarrow> (validation_error v, db)
      | None \<Rightarrow>
          (case save Marketplace_valid (new_doc (lowercase_email body) u oid now)
                  (marketplaces db) of
             Inl e \<Rightarrow> (internal_error, db)
           | Inr ds \<Rightarrow>
               (let db' = db\<lparr>marketplaces := ds\<rparr> in
                case findById ds oid of
                  Inr (Some newEntry) \<Rightarrow>
                    (created ''Marketplace entry created successfully'' newEntry
                       (created_by_name db' newEntry), db')
                | _ \<Rightarrow> (internal_error, db'))))"

definition marketplace_put :: "externals \<Rightarrow> dbstate \<Rightarrow> user \<Rightarrow> string \<Rightarrow> jobject \<Rightarrow> nat \<Rightarrow> response \<times> dbstate" where
  "marketplace_put X db u i body now =
     (case marketplaceSchema X body of
        Some v \<Rightarrow> (validation_error v, db)
      | None \<Rightarrow>
          (case findById (marketplaces db) i of
             Inl e \<Rightarrow> (internal_error, db)
           | Inr None \<Rightarrow> (not_found ''Marketplace entry not found'', db)
           | Inr (Some existingEntry) \<Rightarrow>
               (if createdBy existingEntry \<noteq> user_id u \<and> role u \<noteq> ''admin''
                then (forbidden ''You can only update your own marketplace entries'', db)
                else
                  (let db' = db\<lparr>marketplaces :=
                                   findByIdAndUpdate (marketplaces db) i (lowercase_email body) now\<rparr> in
                   case findById (marketplaces db') i of
                     Inr (Some updatedEntry) \<Rightarrow>
                       (ok_changed ''Marketplace entry updated successfully'' updatedEntry
                          (created_by_name db' updatedEntry), db')
                   | _ \<Rightarrow> (internal_error, db')))))"

definition marketplace_delete :: "dbstate \<Rightarrow> user \<Rightarrow> string \<Rightarrow> response \<times> dbstate" where
  "marketplace_delete db u i =
     (case findById (marketplaces db) i of
        Inl e \<Rightarrow> (internal_error, db)
      | Inr None \<Rightarrow> (not_found ''Marketplace entry not found'', db)
      | Inr (Some existingEntry) \<Rightarrow>
          (if createdBy existingEntry \<noteq> user_id u \<and> role u \<noteq> ''admin''
           then (forbidden ''You can only delete your own marketplace entries'', db)
           else (ok_deleted ''Marketplace entry deleted successfully'',
                 db\<lparr>marketplaces := findByIdAndDelete (marketplaces db) i\<rparr>)))"


section \<open>The role middleware in front of the scheme routes\<close>

text \<open>
  Modelled from the spec: \<^verbatim>\<open>requireRole\<close> of \<^verbatim>\<open>middleware/auth.js\<close>, which is not among
  the sources. The spec has the scheme routes require the elevated role and the
  training routes also admit a second role; the middleware lets a request through when
  the caller's role is one of the listed roles, and ends it otherwise.
\<close>

definition requireRole :: "string list \<Rightarrow> user \<Rightarrow> bool" where
  "requireRole roles u = (role u \<in> set roles)"

datatype 'a routed = Denied | Handled 'a



text \<open>\<^verbatim>\<open>router.post('/', authenticateToken, requireRole(['entrepreneur', 'admin']), handler)\<close>\<close>

definition training_post_route :: "externals \<Rightarrow> dbstate \<Rightarrow> user \<Rightarrow> jobject \<Rightarrow> string \<Rightarrow> nat \<Rightarrow> (response \<times> dbstate) routed" where
  "training_post_route X db u body oid now =
     (if requireRole [''entrepreneur'', ''admin''] u
      then Handled (training_post X db u body oid now) else Denied)"

section \<open>What the specification says of filters\<close>











section \<open>Sample data\<close>

text \<open>
  A store with three users, one scheme and one job, and an instance of the
  collaborators: it accepts as URIs the strings that begin with \<^verbatim>\<open>http\<close>, as e-mail
  addresses those of the model's expression, and no pattern with metacharacters.
\<close>

definition sample_externals :: externals where
  "sample_externals =
     \<lparr>joi_uri = (\<lambda>s. take 4 s = ''http''), joi_email = rmatch email_re,
      mongo_regex = (\<lambda>p. None)\<rparr>"

definition asha :: user where
  "asha = \<lparr>user_id = ''u1'', user_name = ''Asha'', role = ''entrepreneur''\<rparr>"

definition ravi :: user where
  "ravi = \<lparr>user_id = ''u2'', user_name = ''Ravi'', role = ''user''\<rparr>"

definition meera :: user where
  "meera = \<lparr>user_id = ''u3'', user_name = ''Meera'', role = ''admin''\<rparr>"

definition job1 :: doc where
  "job1 =
     \<lparr>doc_id = ''0123456789abcdef00000001'', createdBy = ''u1'', createdAt = 5, updatedAt = 5,
      docfields =
        [(''title'', JStr ''Tailor''), (''description'', JStr ''Stitching work''),
         (''category'', JStr ''Tech''), (''location'', JStr ''Pune''),
         (''language'', JStr ''en'')]\<rparr>"

definition scheme1 :: doc where
  "scheme1 =
     \<lparr>doc_id = ''0123456789abcdef00000002'', createdBy = ''u1'', createdAt = 6, updatedAt = 6,
      docfields =
        [(''title'', JStr ''Farm loans''), (''description'', JStr ''Credit for farmers''),
         (''eligibility'', JStr ''Small holders''), (''link'', JStr ''https://x.test/farm''),
         (''language'', JStr ''en''), (''category'', JStr ''Agriculture'')]\<rparr>"

definition sample_db :: dbstate where
  "sample_db =
     \<lparr>users = [asha, ravi, meera], schemes = [scheme1], jobs = [job1],
      trainingcontents = [], marketplaces = []\<rparr>"

definition no_params :: query where
  "no_params =
     \<lparr>q_language = None, q_category = None, q_location = None, q_type = None,
      q_page = None, q_limit = None, q_other = []\<rparr>"

text \<open>The payload of the specification's scenario for the training router.\<close>

definition intro_video :: jobject where
  "intro_video =
     [(''title'', JStr ''Intro''), (''type'', JStr ''video''),
      (''url'', JStr ''https://x.test/a''), (''language'', JStr ''en'')]"

definition job_payload :: jobject where
  "job_payload =
     [(''title'', JStr ''Weaver''), (''description'', JStr ''Handloom weaving''),
      (''category'', JStr ''Craft''), (''location'', JStr ''Surat''),
      (''language'', JStr ''gu'')]"


section \<open>The training router\<close>

lemma TrainingContent_unbound:
  "lookup_ident training_scope ''TrainingContent'' = Inl (ReferenceError ''TrainingContent'')"
  by (simp add: lookup_ident_def training_scope_def)

lemma select_missing: "call_method (connectDB t) ''select'' = Inl (TypeError ''select'')"
  by (simp add: call_method_def connectDB_def)

lemma trainingSchema_intro_video:
  "trainingSchema X intro_video =
     (if joi_uri X ''https://x.test/a'' then None else Some (Violation ''url'' NotUri))"
  by (simp add: trainingSchema_def intro_video_def joi_object_def get_prop_def joi_string_def
      joi_valid_def check_unknown_def)

text \<open>
  C1. The scenario of the specification: the payload
  \<^verbatim>\<open>{title:"Intro", type:"video", url:"https://x.test/a", language:"en"}\<close> posted to the
  training router should be answered with 201 and the caller's name. The handler
  answers 500 when the URL passes Joi's check (400 if it did not), for every caller and
  every store, and writes nothing: \<^verbatim>\<open>new TrainingContent\<close> throws, the name being unbound.
\<close>

theorem training_post_intro_video:
  "training_post X db u intro_video oid now =
     ((if joi_uri X ''https://x.test/a'' then internal_error
       else validation_error (Violation ''url'' NotUri)), db)
   \<and> status (fst (training_post X db u intro_video oid now)) \<noteq> 201"
  by (simp add: training_post_def trainingSchema_intro_video TrainingContent_unbound
      internal_error_def validation_error_def)

text \<open>
  C2, as amended. The list, get-by-id, list-by-type and delete handlers of the training
  router answer every request with 500 and \<^verbatim>\<open>Internal server error\<close>. Create and
  update answer 400 with the violation when the payload fails the Joi schema, and 500
  otherwise. No handler writes to the store.
\<close>

theorem training_handlers_fail:
  "training_get_all X db q = internal_error
   \<and> training_get_id db i = internal_error
   \<and> training_get_type X db ty q = internal_error
   \<and> training_delete db u i = (internal_error, db)
   \<and> training_post X db u body oid now =
       ((case trainingSchema X body of Some v \<Rightarrow> validation_error v | None \<Rightarrow> internal_error), db)
   \<and> training_put X db u i body now =
       ((case trainingSchema X body of Some v \<Rightarrow> validation_error v | None \<Rightarrow> internal_error), db)"
  by (simp add: training_get_all_def training_get_id_def training_get_type_def
      training_delete_def training_post_def training_put_def TrainingContent_unbound
      select_missing split: option.splits)

text \<open>
  C2 as stated fails: a create request with an empty payload is answered with 400, not
  with 500.
\<close>

theorem training_post_empty_body_400:
  "status (fst (training_post sample_externals sample_db asha [] ''0123456789abcdef00000009'' 7))
     = 400"
  by (simp add: training_post_def trainingSchema_def joi_object_def get_prop_def joi_string_def
      validation_error_def)

section \<open>Validation before every write\<close>

lemma jobSchema_empty: "jobSchema X [] = Some (Violation ''title'' Required)"
  by (simp add: jobSchema_def joi_object_def get_prop_def joi_string_def)

lemma jobSchema_job_payload: "jobSchema X job_payload = None"
  by (simp add: jobSchema_def job_payload_def joi_object_def get_prop_def joi_string_def
      check_unknown_def)


lemma findById_job1: "findById (jobs sample_db) ''0123456789ABCDEF00000001'' = Inr (Some job1)"
  by code_simp


lemma findById_absent: "findById (jobs sample_db) ''0123456789abcdef000000ff'' = Inr None"
  by code_simp

text \<open>
  C10, as amended. A create or update request whose payload fails the Joi schema of its
  resource is answered with 400, the message \<^verbatim>\<open>Validation error\<close> and a list of
  exactly one entry, the violation at which Joi stopped; the store is returned as it
  was.
\<close>

theorem invalid_payload_rejected:
  "(schemeSchema X body = Some v \<longrightarrow>
      schemes_post X db u body oid now = (validation_error v, db) \<and>
      schemes_put X db u i body now = (validation_error v, db))
   \<and> (jobSchema X body = Some v \<longrightarrow>
      jobs_post X db u body oid now = (validation_error v, db) \<and>
      jobs_put X db u i body now = (validation_error v, db))
   \<and> (trainingSchema X body = Some v \<longrightarrow>
      training_post X db u body oid now = (validation_error v, db) \<and>
      training_put X db u i body now = (validation_error v, db))
   \<and> (marketplaceSchema X body = Some v \<longrightarrow>
      marketplace_post X db u body oid now = (validation_error v, db) \<and>
      marketplace_put X db u i body now = (validation_error v, db))
   \<and> status (validation_error v) = 400
   \<and> message (validation_error v) = Some ''Validation error''
   \<and> errors (validation_error v) = Some [v]"
  by (simp add: schemes_post_def schemes_put_def jobs_post_def jobs_put_def training_post_def
      training_put_def marketplace_post_def marketplace_put_def validation_error_def)

theorem invalid_payload_rejected_witness:
  "jobSchema sample_externals [] = Some (Violation ''title'' Required)
   \<and> jobs_post sample_externals sample_db asha [] ''0123456789abcdef00000009'' 7
       = (validation_error (Violation ''title'' Required), sample_db)
   \<and> status (validation_error (Violation ''title'' Required)) = 400"
  using invalid_payload_rejected [of sample_externals "[]" "Violation ''title'' Required"
      sample_db asha "''0123456789abcdef00000009''" 7]
  by (simp add: jobSchema_empty)

text \<open>
  C10 as stated fails: the empty payload lacks every field of the job schema, the
  description among them, and the list of errors names the title alone.
\<close>

theorem one_message_only:
  "errors (fst (jobs_post sample_externals sample_db asha [] ''0123456789abcdef00000009'' 7))
     = Some [Violation ''title'' Required]
   \<and> joi_string sample_externals [Min 10] True (get_prop [] ''description'') = Some Required"
  by (simp add: jobs_post_def jobSchema_empty validation_error_def joi_string_def get_prop_def)

section \<open>Existence and ownership\<close>



text \<open>
  C5, as amended. For an existing job or marketplace entry and a caller who is neither
  its creator nor an admin, delete is answered with 403, and update with 403 when the
  payload passes the Joi schema and with 400 when it does not, the payload being
  checked first. The store is returned as it was in each case.
\<close>

theorem non_owner_forbidden:
  assumes "createdBy d \<noteq> user_id u" and "role u \<noteq> ''admin''"
  shows "(findById (jobs db) i = Inr (Some d) \<longrightarrow>
            jobs_delete db u i = (forbidden ''You can only delete your own jobs'', db) \<and>
            jobs_put X db u i body now =
              ((case jobSchema X body of
                  Some v \<Rightarrow> validation_error v
                | None \<Rightarrow> forbidden ''You can only update your own jobs''), db))
       \<and> (findById (marketplaces db) i = Inr (Some d) \<longrightarrow>
            marketplace_delete db u i =
              (forbidden ''You can only delete your own marketplace entries'', db) \<and>
            marketplace_put X db u i body now =
              ((case marketplaceSchema X body of
                  Some v \<Rightarrow> validation_error v
                | None \<Rightarrow> forbidden ''You can only update your own marketplace entries''), db))
       \<and> status (forbidden msg) = 403"
  using assms
  by (simp add: jobs_delete_def jobs_put_def marketplace_delete_def marketplace_put_def
      forbidden_def split: option.splits)

theorem non_owner_forbidden_witness:
  "createdBy job1 \<noteq> user_id ravi \<and> role ravi \<noteq> ''admin''
   \<and> findById (jobs sample_db) ''0123456789ABCDEF00000001'' = Inr (Some job1)
   \<and> jobs_delete sample_db ravi ''0123456789ABCDEF00000001''
       = (forbidden ''You can only delete your own jobs'', sample_db)
   \<and> jobs_put sample_externals sample_db ravi ''0123456789ABCDEF00000001'' job_payload 9
       = (forbidden ''You can only update your own jobs'', sample_db)"
proof -
  have a: "createdBy job1 \<noteq> user_id ravi" by (simp add: job1_def ravi_def)
  have b: "role ravi \<noteq> ''admin''" by (simp add: ravi_def)
  show ?thesis
    using non_owner_forbidden [OF a b, of sample_db "''0123456789ABCDEF00000001''"
        sample_externals job_payload 9] a b
    by (simp add: findById_job1 jobSchema_job_payload)
qed

text \<open>
  C5 as stated fails: an update of a job by a caller who is neither its creator nor an
  admin, with an empty payload, is answered with 400 and not 403.
\<close>

theorem non_owner_invalid_update_400:
  "createdBy job1 \<noteq> user_id ravi \<and> role ravi \<noteq> ''admin''
   \<and> findById (jobs sample_db) ''0123456789ABCDEF00000001'' = Inr (Some job1)
   \<and> status (fst (jobs_put sample_externals sample_db ravi ''0123456789ABCDEF00000001'' [] 9)) = 400"
  by (simp add: job1_def ravi_def findById_job1 jobs_put_def jobSchema_empty validation_error_def)

text \<open>
  C6, as amended. For a scheme, job or marketplace id that is a well-formed ObjectId
  and that no document has, delete is answered with 404 whoever the caller is, and
  update with 404 when the payload passes the Joi schema and with 400 when it does
  not. The store is returned as it was.
\<close>

theorem missing_id_not_found:
  "(findById (schemes db) i = Inr None \<longrightarrow>
      schemes_delete db u i = (not_found ''Scheme not found'', db) \<and>
      schemes_put X db u i body now =
        ((case schemeSchema X body of
            Some v \<Rightarrow> validation_error v | None \<Rightarrow> not_found ''Scheme not found''), db))
   \<and> (findById (jobs db) i = Inr None \<longrightarrow>
      jobs_delete db u i = (not_found ''Job not found'', db) \<and>
      jobs_put X db u i body now =
        ((case jobSchema X body of
            Some v \<Rightarrow> validation_error v | None \<Rightarrow> not_found ''Job not found''), db))
   \<and> (findById (marketplaces db) i = Inr None \<longrightarrow>
      marketplace_delete db u i = (not_found ''Marketplace entry not found'', db) \<and>
      marketplace_put X db u i body now =
        ((case marketplaceSchema X body of
            Some v \<Rightarrow> validation_error v
          | None \<Rightarrow> not_found ''Marketplace entry not found''), db))
   \<and> status (not_found msg) = 404"
  by (simp add: schemes_delete_def schemes_put_def jobs_delete_def jobs_put_def
      marketplace_delete_def marketplace_put_def not_found_def split: option.splits)

theorem missing_id_not_found_witness:
  "findById (jobs sample_db) ''0123456789abcdef000000ff'' = Inr None
   \<and> jobs_delete sample_db ravi ''0123456789abcdef000000ff'' = (not_found ''Job not found'', sample_db)
   \<and> jobs_put sample_externals sample_db ravi ''0123456789abcdef000000ff'' job_payload 9
       = (not_found ''Job not found'', sample_db)"
  using missing_id_not_found [of sample_db "''0123456789abcdef000000ff''" ravi
      sample_externals job_payload 9]
  by (simp add: findById_absent jobSchema_job_payload)

text \<open>
  C6 as stated fails: an update of a job id that no document has, with an empty
  payload, is answered with 400 and not 404.
\<close>

theorem missing_id_invalid_update_400:
  "findById (jobs sample_db) ''0123456789abcdef000000ff'' = Inr None
   \<and> status (fst (jobs_put sample_externals sample_db ravi ''0123456789abcdef000000ff'' [] 9)) = 400"
  by (simp add: findById_absent jobs_put_def jobSchema_empty validation_error_def)



section \<open>Filters of the list handlers\<close>























section \<open>Pagination of the list handlers\<close>







lemma schemes_page2:
  "schemes_get_all sample_externals sample_db (no_params\<lparr>q_page := Some 2, q_limit := Some 1\<rparr>) =
     ok_many []
       (Some \<lparr>currentPage = 2, totalPages = Some 1, totalItems = 1, itemsPerPage = 1\<rparr>)"
  by code_simp


section \<open>The search handlers\<close>









end
